theory Spec2Isabelle
  imports Complex_Main "HOL-Library.Word"
begin

section \<open>Shared vocabulary\<close>

text \<open>
  The development embeds \<^verbatim>\<open>llvfs.py\<close>. Python integers are \<^typ>\<open>int\<close>, byte strings
  are lists of 8-bit words, and every exception the source can raise is a constructor of
  \<open>error\<close>; a function that may raise returns \<open>error + 'a\<close> with the exception on the
  left.
\<close>

type_synonym byte = "8 word"

datatype error =
    ValueError
  | StructError
  | UnsupportedOperation
  | OSError
  | FileNotFoundError
  | AttributeError
  | KeyError
  | IndexError
  | OverflowError

text \<open>
  \<^verbatim>\<open>math.ceil(v/1024)\<close> and \<^verbatim>\<open>round(v/1024)\<close>. The quotient \<^verbatim>\<open>v/1024\<close> is a
  double; it is the exact rational whenever \<open>\<bar>v\<bar> < 2^53\<close>, which covers every byte
  count and every 32-bit field of the format. The two functions below are the exact
  ceiling and the exact rounding, so they are the code's values for \<open>\<bar>v\<bar> < 2^53\<close> and
  not beyond, where the double has lost the low bits of \<open>v\<close>. Every statement that
  depends on their value is made for arguments in that range (\<open>in_double_range\<close>).
  Python's \<^verbatim>\<open>round\<close> rounds a tie to the even neighbour.
\<close>

definition in_double_range :: "int \<Rightarrow> bool" where
  "in_double_range v = (\<bar>v\<bar> < 2 ^ 53)"

definition ceil1024 :: "int \<Rightarrow> int" where
  "ceil1024 v = \<lceil>real_of_int v / 1024\<rceil>"

definition round1024 :: "int \<Rightarrow> int" where
  "round1024 v =
     (let q = v div 1024; r = v mod 1024
      in if r < 512 then q
         else if 512 < r then q + 1
         else if even q then q else q + 1)"

section \<open>The asset type registry \<^verbatim>\<open>AT\<close>\<close>

text \<open>
  A row of \<^verbatim>\<open>asset_types\<close> is a tuple of strings, \<^verbatim>\<open>None\<close> and booleans. The
  dictionary is an association list in the order the source writes it, because
  \<^verbatim>\<open>__init__\<close> walks it in that order.
\<close>

datatype pyval = Str string | NoneVal | Bool bool

definition asset_type_names :: "string list" where
  "asset_type_names =
     [''description'', ''typename'', ''humanname'', ''link'', ''fetch'', ''know'']"

definition asset_types :: "(int \<times> pyval list) list" where
  "asset_types =
   [(0,   [Str ''TEXTURE'',      Str ''texture'',  Str ''texture'',         Bool True,  Bool False, Bool True]),
    (1,   [Str ''SOUND'',        Str ''sound'',    Str ''sound'',           Bool True,  Bool True,  Bool True]),
    (2,   [Str ''CALLINGCARD'',  Str ''callcard'', Str ''calling card'',    Bool True,  Bool False, Bool False]),
    (3,   [Str ''LANDMARK'',     Str ''landmark'', Str ''landmark'',        Bool True,  Bool True,  Bool True]),
    (4,   [Str ''SCRIPT'',       Str ''script'',   Str ''legacy script'',   Bool True,  Bool False, Bool False]),
    (5,   [Str ''CLOTHING'',     Str ''clothing'', Str ''clothing'',        Bool True,  Bool True,  Bool True]),
    (6,   [Str ''OBJECT'',       Str ''object'',   Str ''object'',          Bool True,  Bool False, Bool False]),
    (7,   [Str ''NOTECARD'',     Str ''notecard'', Str ''note card'',       Bool True,  Bool False, Bool True]),
    (8,   [Str ''CATEGORY'',     Str ''category'', Str ''folder'',          Bool True,  Bool False, Bool False]),
    (10,  [Str ''LSL_TEXT'',     Str ''lsltext'',  Str ''lsl2 script'',     Bool True,  Bool False, Bool False]),
    (11,  [Str ''LSL_BYTECODE'', Str ''lslbyte'',  Str ''lsl bytecode'',    Bool True,  Bool False, Bool False]),
    (12,  [Str ''TEXTURE_TGA'',  Str ''txtr_tga'', Str ''tga texture'',     Bool True,  Bool False, Bool False]),
    (13,  [Str ''BODYPART'',     Str ''bodypart'', Str ''body part'',       Bool True,  Bool True,  Bool True]),
    (17,  [Str ''SOUND_WAV'',    Str ''snd_wav'',  Str ''sound'',           Bool True,  Bool False, Bool False]),
    (18,  [Str ''IMAGE_TGA'',    Str ''img_tga'',  Str ''targa image'',     Bool True,  Bool False, Bool False]),
    (19,  [Str ''IMAGE_JPEG'',   Str ''jpeg'',     Str ''jpeg image'',      Bool True,  Bool False, Bool False]),
    (20,  [Str ''ANIMATION'',    Str ''animatn'',  Str ''animation'',       Bool True,  Bool True,  Bool True]),
    (21,  [Str ''GESTURE'',      Str ''gesture'',  Str ''gesture'',         Bool True,  Bool True,  Bool True]),
    (22,  [Str ''SIMSTATE'',     Str ''simstate'', Str ''simstate'',        Bool False, Bool False, Bool False]),
    (24,  [Str ''LINK'',         Str ''link'',     Str ''sym link'',        Bool False, Bool False, Bool True]),
    (25,  [Str ''FOLDER_LINK'',  Str ''link_f'',   Str ''sym folder link'', Bool False, Bool False, Bool True]),
    (49,  [Str ''MESH'',         Str ''mesh'',     Str ''mesh'',            Bool False, Bool False, Bool False]),
    (40,  [Str ''WIDGET'',       Str ''widget'',   Str ''widget'',          Bool False, Bool False, Bool False]),
    (45,  [Str ''PERSON'',       Str ''person'',   Str ''person'',          Bool False, Bool False, Bool False]),
    (255, [Str ''UNKNOWN'',      Str ''invalid'',  NoneVal,                 Bool False, Bool False, Bool False]),
    (-2,  [Str ''NONE'',         Str ''-1'',       NoneVal,                 Bool False, Bool False, Bool False])]"

text \<open>\<^verbatim>\<open>__init__\<close>: the tuple \<^verbatim>\<open>cvars\<close> of the first component of every row, in table order.\<close>

definition cvars :: "pyval list" where
  "cvars = map (\<lambda>(entry, row). row ! 0) asset_types"

text \<open>\<^verbatim>\<open>tuple.index\<close>: the position of the first occurrence.\<close>

fun index_of :: "'a list \<Rightarrow> 'a \<Rightarrow> nat" where
  "index_of [] k = 0"
| "index_of (x # xs) k = (if x = k then 0 else Suc (index_of xs k))"

text \<open>
  \<^verbatim>\<open>__getitem__\<close>: a code outside the table is replaced by 255 before the row is looked
  up and zipped with the field names.
\<close>

definition AT_getitem :: "int \<Rightarrow> error + (string \<times> pyval) list" where
  "AT_getitem k =
     (let k' = (if k \<notin> set (map fst asset_types) then 255 else k)
      in case map_of asset_types k' of
           None \<Rightarrow> Inl KeyError
         | Some row \<Rightarrow> Inr (zip asset_type_names row))"

text \<open>
  \<^verbatim>\<open>__getattr__\<close>, the lookup by symbolic name: a name in \<^verbatim>\<open>cvars\<close> yields
  \<^verbatim>\<open>cvars.index(k)\<close>, any other name raises \<^verbatim>\<open>AttributeError\<close>. Python calls it
  for the names that are not attributes of the object already, which none of the names
  in \<^verbatim>\<open>cvars\<close> is.
\<close>

definition AT_getattr :: "string \<Rightarrow> error + int" where
  "AT_getattr k =
     (if Str k \<in> set cvars then Inr (int (index_of cvars (Str k)))
      else Inl AttributeError)"

text \<open>\<^verbatim>\<open>fromFileExtension\<close>: the first code whose type name is \<open>v\<close>, else \<^verbatim>\<open>None\<close>.\<close>

fun fromFileExtension_loop :: "(int \<times> pyval list) list \<Rightarrow> string \<Rightarrow> int option" where
  "fromFileExtension_loop [] v = None"
| "fromFileExtension_loop ((code, row) # rest) v =
     (if row ! 1 = Str v then Some code else fromFileExtension_loop rest v)"

definition fromFileExtension :: "string \<Rightarrow> int option" where
  "fromFileExtension v = fromFileExtension_loop asset_types v"

section \<open>\<^verbatim>\<open>LLVFSEntry\<close>\<close>

text \<open>
  The key is the 16 bytes of the UUID, the access time is a number of seconds. The fields
  \<^verbatim>\<open>_size\<close> and \<^verbatim>\<open>_length\<close> are \<open>u_size\<close> and \<open>u_length\<close>; \<open>VFS\<close> records whether the
  entry is attached to a store.
\<close>

type_synonym uuid = "byte list"

record LLVFSEntry =
  offset :: int
  u_size :: int
  u_length :: int
  key :: uuid
  accesstime :: int
  filetype :: int
  VFS :: bool

text \<open>
  \<^verbatim>\<open>__init__\<close>. The random key and the clock of the two defaults are the arguments
  \<open>rnd\<close> and \<open>now\<close>.
\<close>

definition LLVFSEntry_init ::
  "uuid \<Rightarrow> int \<Rightarrow> int \<Rightarrow> int \<Rightarrow> int option \<Rightarrow> uuid option \<Rightarrow> int option \<Rightarrow> int \<Rightarrow> bool
     \<Rightarrow> LLVFSEntry" where
  "LLVFSEntry_init rnd now off sz len k atime ftype vfs =
     \<lparr> offset = off,
       u_size = sz,
       u_length = (case len of
                     None \<Rightarrow> 1024 * ceil1024 sz
                   | Some l \<Rightarrow> if l < sz then 1024 * ceil1024 sz else l),
       key = (case k of None \<Rightarrow> rnd | Some k' \<Rightarrow> k'),
       accesstime = (case atime of None \<Rightarrow> now | Some t \<Rightarrow> t),
       filetype = ftype,
       VFS = vfs \<rparr>"

text \<open>The property \<^verbatim>\<open>size\<close>: getter and setter.\<close>

definition size_get :: "LLVFSEntry \<Rightarrow> int" where
  "size_get e = u_size e"

definition size_set :: "LLVFSEntry \<Rightarrow> int \<Rightarrow> LLVFSEntry" where
  "size_set e v =
     (let e1 = (if u_length e < v then e\<lparr>u_length := 1024 * ceil1024 v\<rparr> else e)
      in e1\<lparr>u_size := v\<rparr>)"

text \<open>The property \<^verbatim>\<open>length\<close>: the getter returns \<^verbatim>\<open>self._size\<close>.\<close>

definition length_get :: "LLVFSEntry \<Rightarrow> int" where
  "length_get e = u_size e"

definition length_set :: "LLVFSEntry \<Rightarrow> int \<Rightarrow> LLVFSEntry" where
  "length_set e v =
     (let v1 = (if v mod 1024 \<noteq> 0 then 1024 * round1024 v else v)
      in if v1 < u_size e then e\<lparr>u_length := 1024 * ceil1024 (u_size e)\<rparr>
         else e\<lparr>u_length := v1\<rparr>)"

section \<open>\<^verbatim>\<open>PathMap\<close>\<close>

record PathMap =
  pathMapping :: "string \<rightharpoonup> string"
  keyMapping :: "string \<rightharpoonup> string"

definition PathMap_empty :: PathMap where
  "PathMap_empty = \<lparr> pathMapping = Map.empty, keyMapping = Map.empty \<rparr>"

text \<open>
  \<^verbatim>\<open>findPath(path)\<close> looks \<open>path\<close> up in \<^verbatim>\<open>pathMapping\<close>, \<^verbatim>\<open>findKey(key)\<close> looks \<open>key\<close> up
  in \<^verbatim>\<open>keyMapping\<close>; a missing entry is \<^verbatim>\<open>None\<close>.
\<close>

definition findPath :: "PathMap \<Rightarrow> string \<Rightarrow> string option" where
  "findPath pm path = pathMapping pm path"

definition findKey :: "PathMap \<Rightarrow> string \<Rightarrow> string option" where
  "findKey pm k = keyMapping pm k"

definition map_pm :: "PathMap \<Rightarrow> string \<Rightarrow> string \<Rightarrow> PathMap" where
  "map_pm pm k path =
     pm\<lparr> pathMapping := (pathMapping pm)(path \<mapsto> k),
         keyMapping := (keyMapping pm)(k \<mapsto> path) \<rparr>"

text \<open>\<^verbatim>\<open>PathMap(data)\<close>: every item of \<open>data\<close> is mapped in turn.\<close>

fun PathMap_init_loop :: "PathMap \<Rightarrow> (string \<times> string) list \<Rightarrow> PathMap" where
  "PathMap_init_loop pm [] = pm"
| "PathMap_init_loop pm ((entry, v) # rest) = PathMap_init_loop (map_pm pm entry v) rest"

definition PathMap_init :: "(string \<times> string) list \<Rightarrow> PathMap" where
  "PathMap_init data = PathMap_init_loop PathMap_empty data"

section \<open>Files and the record codec\<close>

text \<open>
  An open binary file is its content and its cursor. The mode of the handle is the
  store's \<open>mode\<close> with \<^verbatim>\<open>"b"\<close> appended: \<^verbatim>\<open>"rb"\<close> can read and not write, \<^verbatim>\<open>"wb"\<close>
  starts empty and writes at the cursor, \<^verbatim>\<open>"ab"\<close> writes at the end, and neither of the
  two can read. A file on disk is \<open>Some\<close> of its bytes, a missing one is \<open>None\<close>.
\<close>

record pyfile =
  content :: "byte list"
  pos :: nat

definition open_file :: "byte list option \<Rightarrow> string \<Rightarrow> error + pyfile" where
  "open_file disk md =
     (if md = ''r'' then
        (case disk of
           None \<Rightarrow> Inl FileNotFoundError
         | Some c \<Rightarrow> Inr \<lparr> content = c, pos = 0 \<rparr>)
      else if md = ''w'' then Inr \<lparr> content = [], pos = 0 \<rparr>
      else if md = ''a'' then
        (case disk of
           None \<Rightarrow> Inr \<lparr> content = [], pos = 0 \<rparr>
         | Some c \<Rightarrow> Inr \<lparr> content = c, pos = length c \<rparr>)
      else Inl ValueError)"

text \<open>Writing \<open>d\<close> at position \<open>p\<close>: a gap beyond the end is filled with zero bytes.\<close>

definition write_at :: "byte list \<Rightarrow> nat \<Rightarrow> byte list \<Rightarrow> byte list" where
  "write_at c p d = take p c @ replicate (p - length c) 0 @ d @ drop (p + length d) c"

definition file_write :: "string \<Rightarrow> pyfile \<Rightarrow> byte list \<Rightarrow> error + pyfile" where
  "file_write md f d =
     (if md = ''w'' then
        Inr \<lparr> content = write_at (content f) (pos f) d, pos = pos f + length d \<rparr>
      else if md = ''a'' then
        Inr \<lparr> content = content f @ d, pos = length (content f) + length d \<rparr>
      else Inl UnsupportedOperation)"

text \<open>
  \<^verbatim>\<open>seek(offset)\<close> on 64-bit CPython. An offset that is not a signed 64-bit value raises
  \<^verbatim>\<open>ValueError\<close>; a negative one, and one beyond the largest offset of the file system,
  raises \<^verbatim>\<open>OSError\<close>. That largest offset is \<open>max_offset\<close>, here the one of ext4 with
  blocks of 4 KiB; it differs between file systems and is at least \<open>2^32 - 1\<close> on any
  that can hold a data file addressed by the 32-bit offsets of the index. The
  statements about \<^verbatim>\<open>seek\<close> take offsets below \<open>2^32\<close>.
\<close>

definition max_offset :: int where
  "max_offset = 2 ^ 44 - 4096"

definition file_seek :: "pyfile \<Rightarrow> int \<Rightarrow> error + pyfile" where
  "file_seek f off =
     (if off < - (2 ^ 63) \<or> 2 ^ 63 \<le> off then Inl ValueError
      else if off < 0 \<or> max_offset < off then Inl OSError
      else Inr (f\<lparr>pos := nat off\<rparr>))"

text \<open>
  \<^verbatim>\<open>read(size)\<close> on 64-bit CPython, for a handle that can read: at most \<open>size\<close> bytes
  from the cursor, fewer when the file ends first; \<open>-1\<close> reads to the end and a smaller
  size is rejected with \<^verbatim>\<open>ValueError\<close>. A size that is not a signed 64-bit value, or
  that leaves no room for the header of the byte string (from \<open>2^63 - 33\<close>), raises
  \<^verbatim>\<open>OverflowError\<close>. \<^verbatim>\<open>read()\<close> is \<open>read(-1)\<close>. The buffer of \<open>size\<close> bytes is
  allocated before the file is read; a size that the machine cannot allocate raises
  \<^verbatim>\<open>MemoryError\<close>, which depends on the machine and is not in the embedding. The
  statements about \<^verbatim>\<open>read\<close> take sizes below \<open>2^32\<close>.
\<close>

definition file_read :: "string \<Rightarrow> pyfile \<Rightarrow> int \<Rightarrow> error + (byte list \<times> pyfile)" where
  "file_read md f n =
     (if md \<noteq> ''r'' then Inl UnsupportedOperation
      else if n < - (2 ^ 63) \<or> 2 ^ 63 - 33 \<le> n then Inl OverflowError
      else if n < - 1 then Inl ValueError
      else
        (let rest = drop (pos f) (content f);
             bs = (if n = - 1 then rest else take (nat n) rest)
         in Inr (bs, f\<lparr>pos := pos f + length bs\<rparr>)))"

text \<open>
  \<^verbatim>\<open>struct.Struct("<III16sHI")\<close>: little-endian, no padding, 34 bytes. An integer
  outside its field raises \<^verbatim>\<open>struct.error\<close>; the 16-byte string field is cut or
  zero-filled to its width.
\<close>

fun le_bytes :: "nat \<Rightarrow> nat \<Rightarrow> byte list" where
  "le_bytes 0 v = []"
| "le_bytes (Suc n) v = of_nat (v mod 256) # le_bytes n (v div 256)"

fun le_val :: "byte list \<Rightarrow> nat" where
  "le_val [] = 0"
| "le_val (b # bs) = unat b + 256 * le_val bs"

definition pack_uint :: "nat \<Rightarrow> int \<Rightarrow> error + byte list" where
  "pack_uint n v =
     (if 0 \<le> v \<and> v < 256 ^ n then Inr (le_bytes n (nat v)) else Inl StructError)"

definition pack_16s :: "byte list \<Rightarrow> byte list" where
  "pack_16s b = take 16 b @ replicate (16 - length b) 0"

definition pack :: "int \<Rightarrow> int \<Rightarrow> int \<Rightarrow> byte list \<Rightarrow> int \<Rightarrow> int \<Rightarrow> error + byte list" where
  "pack off len atime k ftype sz =
     (case pack_uint 4 off of Inl e \<Rightarrow> Inl e | Inr b0 \<Rightarrow>
      case pack_uint 4 len of Inl e \<Rightarrow> Inl e | Inr b1 \<Rightarrow>
      case pack_uint 4 atime of Inl e \<Rightarrow> Inl e | Inr b2 \<Rightarrow>
      case pack_uint 2 ftype of Inl e \<Rightarrow> Inl e | Inr b4 \<Rightarrow>
      case pack_uint 4 sz of Inl e \<Rightarrow> Inl e | Inr b5 \<Rightarrow>
        Inr (b0 @ b1 @ b2 @ pack_16s k @ b4 @ b5))"

type_synonym index_record = "nat \<times> nat \<times> nat \<times> byte list \<times> nat \<times> nat"

definition unpack :: "byte list \<Rightarrow> index_record" where
  "unpack r =
     (le_val (take 4 r),
      le_val (take 4 (drop 4 r)),
      le_val (take 4 (drop 8 r)),
      take 16 (drop 12 r),
      le_val (take 2 (drop 28 r)),
      le_val (take 4 (drop 30 r)))"

fun chunks34 :: "byte list \<Rightarrow> byte list list" where
  "chunks34 buf = (if buf = [] then [] else take 34 buf # chunks34 (drop 34 buf))"

declare chunks34.simps [simp del]

text \<open>
  \<^verbatim>\<open>iter_unpack\<close> checks the buffer before it yields anything: a length that is not a
  multiple of 34 raises \<^verbatim>\<open>struct.error\<close>.
\<close>

definition iter_unpack :: "byte list \<Rightarrow> error + index_record list" where
  "iter_unpack buf =
     (if length buf mod 34 \<noteq> 0 then Inl StructError
      else Inr (map unpack (chunks34 buf)))"

section \<open>\<^verbatim>\<open>LLVFS\<close>\<close>

record LLVFS =
  mode :: string
  entries :: "LLVFSEntry list"
  keymap :: "uuid list"
  indexFile :: pyfile
  dataFile :: pyfile

text \<open>
  The entry that \<^verbatim>\<open>loadIndexFile\<close> builds from one record. Every argument of the
  constructor is given, so its two defaults are not used.
\<close>

definition entry_of_record :: "index_record \<Rightarrow> LLVFSEntry" where
  "entry_of_record r =
     (case r of (e0, e1, e2, e3, e4, e5) \<Rightarrow>
        LLVFSEntry_init [] 0 (int e0) (int e5) (Some (int e1)) (Some e3) (Some (int e2))
          (int e4) True)"

fun load_loop :: "LLVFS \<Rightarrow> index_record list \<Rightarrow> LLVFS" where
  "load_loop s [] = s"
| "load_loop s (r # rs) =
     load_loop (s\<lparr> entries := entries s @ [entry_of_record r],
                   keymap := keymap s @ [key (entry_of_record r)] \<rparr>) rs"

definition loadIndexFile :: "LLVFS \<Rightarrow> error + LLVFS" where
  "loadIndexFile s =
     (case file_seek (indexFile s) 0 of Inl e \<Rightarrow> Inl e | Inr f0 \<Rightarrow>
      case file_read (mode s) f0 (- 1) of Inl e \<Rightarrow> Inl e | Inr (buf, f1) \<Rightarrow>
      case iter_unpack buf of Inl e \<Rightarrow> Inl e | Inr recs \<Rightarrow>
        Inr (load_loop (s\<lparr>indexFile := f1\<rparr>) recs))"

text \<open>
  \<^verbatim>\<open>__init__\<close>. \<^verbatim>\<open>mode.lower()\<close> is one of \<^verbatim>\<open>"r"\<close>, \<^verbatim>\<open>"w"\<close>, \<^verbatim>\<open>"a"\<close> for these
  three strings and for \<^verbatim>\<open>"R"\<close>, \<^verbatim>\<open>"W"\<close>, \<^verbatim>\<open>"A"\<close>, which is all that \<open>lower_mode\<close>
  has to tell apart. The upper-case modes pass the first check and are then refused by
  \<^verbatim>\<open>open\<close> with the same \<^verbatim>\<open>ValueError\<close>, the last branch of \<open>open_file\<close>.
\<close>

definition lower_mode :: "string \<Rightarrow> string" where
  "lower_mode md = (if md = ''R'' then ''r'' else if md = ''W'' then ''w''
                    else if md = ''A'' then ''a'' else md)"

definition LLVFS_init :: "byte list option \<Rightarrow> byte list option \<Rightarrow> string \<Rightarrow> error + LLVFS" where
  "LLVFS_init idx dat md =
     (if lower_mode md \<notin> set [''r'', ''w'', ''a''] then Inl ValueError
      else
        case open_file idx md of Inl e \<Rightarrow> Inl e | Inr fi \<Rightarrow>
        case open_file dat md of Inl e \<Rightarrow> Inl e | Inr fd \<Rightarrow>
          (let s = \<lparr> mode = md, entries = [], keymap = [], indexFile = fi, dataFile = fd \<rparr>
           in if md = ''r'' \<or> md = ''a'' then loadIndexFile s else Inr s))"

definition len_store :: "LLVFS \<Rightarrow> nat" where
  "len_store s = length (entries s)"

definition iter_store :: "LLVFS \<Rightarrow> LLVFSEntry list" where
  "iter_store s = entries s"

text \<open>
  \<^verbatim>\<open>fromKey\<close> for a key given as a UUID: \<^verbatim>\<open>keymap.index(key)\<close> is the first position of
  the key, and a missing key falls through to \<^verbatim>\<open>None\<close>.
\<close>

definition fromKey :: "LLVFS \<Rightarrow> uuid \<Rightarrow> error + LLVFSEntry option" where
  "fromKey s k =
     (if k \<in> set (keymap s) then
        (let i = index_of (keymap s) k
         in if i < length (entries s) then Inr (Some (entries s ! i)) else Inl IndexError)
      else Inr None)"

text \<open>\<^verbatim>\<open>read\<close>: the result and the store with the cursor where the call leaves it.\<close>

definition read :: "LLVFS \<Rightarrow> int \<Rightarrow> int \<Rightarrow> (error + byte list) \<times> LLVFS" where
  "read s off sz =
     (case file_seek (dataFile s) off of
        Inl e \<Rightarrow> (Inl e, s)
      | Inr f1 \<Rightarrow>
          (case file_read (mode s) f1 sz of
             Inl e \<Rightarrow> (Inl e, s\<lparr>dataFile := f1\<rparr>)
           | Inr (bs, f2) \<Rightarrow> (Inr bs, s\<lparr>dataFile := f2\<rparr>)))"

text \<open>\<^verbatim>\<open>LLVFSEntry.read\<close>, with the owning store passed in.\<close>

definition entry_read :: "LLVFS \<Rightarrow> LLVFSEntry \<Rightarrow> (error + byte list option) \<times> LLVFS" where
  "entry_read s e =
     (if \<not> VFS e then (Inr None, s)
      else case read s (offset e) (size_get e) of
             (Inl err, s') \<Rightarrow> (Inl err, s')
           | (Inr bs, s') \<Rightarrow> (Inr (Some bs), s'))"

text \<open>
  \<^verbatim>\<open>add\<close> for a key given as a UUID and an integer file type; \<open>now\<close> is the clock.
  An access time of \<open>0\<close> is replaced like a missing one, since the source tests
  \<^verbatim>\<open>not accesstime\<close>. The data is written before the record is packed.
\<close>

definition add ::
  "int \<Rightarrow> LLVFS \<Rightarrow> uuid \<Rightarrow> int \<Rightarrow> byte list \<Rightarrow> int option \<Rightarrow> error + LLVFS" where
  "add now s k ftype dat atime =
     (let atime' = (case atime of None \<Rightarrow> now | Some t \<Rightarrow> if t = 0 then now else t);
          len = 1024 * ceil1024 (int (length dat));
          off = int (pos (dataFile s))
      in case file_write (mode s) (dataFile s) dat of Inl e \<Rightarrow> Inl e | Inr f1 \<Rightarrow>
         case (if len - int (length dat) > 0
               then file_write (mode s) f1 (replicate (nat (len - int (length dat))) 0)
               else Inr f1) of Inl e \<Rightarrow> Inl e | Inr f2 \<Rightarrow>
         case pack off len atime' k ftype (int (length dat)) of Inl e \<Rightarrow> Inl e | Inr r \<Rightarrow>
         case file_write (mode s) (indexFile s) r of Inl e \<Rightarrow> Inl e | Inr fi \<Rightarrow>
           Inr (s\<lparr> dataFile := f2, indexFile := fi \<rparr>))"

section \<open>Predicates and concrete inputs of the statements\<close>

text \<open>The stored length is a block multiple and not below the size.\<close>

definition block_inv :: "LLVFSEntry \<Rightarrow> bool" where
  "block_inv e = (u_length e mod 1024 = 0 \<and> u_size e \<le> u_length e)"

text \<open>
  A store in write mode whose index file holds whole records and has its cursor at the
  end. \<^verbatim>\<open>LLVFS(index, data, "w")\<close> gives such a store, and \<^verbatim>\<open>add\<close> and \<^verbatim>\<open>read\<close> keep it
  one.
\<close>

definition opened_w :: "LLVFS \<Rightarrow> bool" where
  "opened_w s =
     (mode s = ''w''
      \<and> pos (indexFile s) = length (content (indexFile s))
      \<and> length (content (indexFile s)) mod 34 = 0)"

text \<open>
  The values that \<^verbatim>\<open>add\<close> packs fit their fields: the write cursor and the padded
  length in 32 bits, the access time in 32 bits, the file type in 16 bits.
\<close>

definition add_fits :: "int \<Rightarrow> LLVFS \<Rightarrow> int \<Rightarrow> byte list \<Rightarrow> int option \<Rightarrow> bool" where
  "add_fits now s ftype dat atime =
     (let atime' = (case atime of None \<Rightarrow> now | Some t \<Rightarrow> if t = 0 then now else t)
      in int (pos (dataFile s)) < 2 ^ 32
         \<and> 1024 * ceil1024 (int (length dat)) < 2 ^ 32
         \<and> 0 \<le> atime' \<and> atime' < 2 ^ 32
         \<and> 0 \<le> ftype \<and> ftype < 2 ^ 16)"

definition demo_key :: uuid where
  "demo_key = [7, 7, 7, 7, 7, 7, 7, 7, 7, 7, 7, 7, 7, 7, 7, 7]"

text \<open>The store that \<^verbatim>\<open>LLVFS(index, data, "w")\<close> returns.\<close>

definition fresh_store :: LLVFS where
  "fresh_store =
     \<lparr> mode = ''w'', entries = [], keymap = [],
       indexFile = \<lparr> content = [], pos = 0 \<rparr>,
       dataFile = \<lparr> content = [], pos = 0 \<rparr> \<rparr>"

text \<open>A store read from an empty index and a data file of three bytes.\<close>

definition store_123 :: LLVFS where
  "store_123 =
     \<lparr> mode = ''r'', entries = [], keymap = [],
       indexFile = \<lparr> content = [], pos = 0 \<rparr>,
       dataFile = \<lparr> content = [1, 2, 3], pos = 0 \<rparr> \<rparr>"

text \<open>
  An index of two records with the key \<open>demo_key\<close>: offset 0, length 1024, time 1, type
  0, size 5, and offset 1024, length 1024, time 2, type 0, size 7; and the entries and
  the store that loading it gives.
\<close>

definition dup_rec_a :: "byte list" where
  "dup_rec_a =
     [0, 0, 0, 0,  0, 4, 0, 0,  1, 0, 0, 0,
      7, 7, 7, 7, 7, 7, 7, 7, 7, 7, 7, 7, 7, 7, 7, 7,  0, 0,  5, 0, 0, 0]"

definition dup_rec_b :: "byte list" where
  "dup_rec_b =
     [0, 4, 0, 0,  0, 4, 0, 0,  2, 0, 0, 0,
      7, 7, 7, 7, 7, 7, 7, 7, 7, 7, 7, 7, 7, 7, 7, 7,  0, 0,  7, 0, 0, 0]"

definition dup_index :: "byte list" where
  "dup_index = dup_rec_a @ dup_rec_b"

definition dup_first :: LLVFSEntry where
  "dup_first =
     \<lparr> offset = 0, u_size = 5, u_length = 1024, key = demo_key, accesstime = 1,
       filetype = 0, VFS = True \<rparr>"

definition dup_last :: LLVFSEntry where
  "dup_last =
     \<lparr> offset = 1024, u_size = 7, u_length = 1024, key = demo_key, accesstime = 2,
       filetype = 0, VFS = True \<rparr>"

definition dup_store :: LLVFS where
  "dup_store =
     \<lparr> mode = ''r'', entries = [dup_first, dup_last], keymap = [demo_key, demo_key],
       indexFile = \<lparr> content = dup_index, pos = 68 \<rparr>,
       dataFile = \<lparr> content = replicate 2048 0, pos = 0 \<rparr> \<rparr>"

section \<open>Rounding to blocks\<close>

lemma ceil1024_div: "ceil1024 v = - ((- v) div 1024)"
proof -
  have "\<lfloor>real_of_int (- v) / real_of_int 1024\<rfloor> = (- v) div 1024"
    by (rule floor_divide_of_int_eq)
  then show ?thesis by (simp add: ceil1024_def ceiling_def)
qed

lemma ceil1024_ge: "v \<le> 1024 * ceil1024 v"
proof -
  have "1024 * ((- v) div 1024) = (- v) - (- v) mod 1024"
    by (simp add: minus_mod_eq_mult_div)
  moreover have "0 \<le> (- v) mod 1024" by simp
  ultimately show ?thesis unfolding ceil1024_div by linarith
qed

lemma ceil1024_lt: "1024 * ceil1024 v < v + 1024"
proof -
  have "1024 * ((- v) div 1024) = (- v) - (- v) mod 1024"
    by (simp add: minus_mod_eq_mult_div)
  moreover have "(- v) mod 1024 < 1024" by simp
  ultimately show ?thesis unfolding ceil1024_div by linarith
qed

section \<open>The entry's size and length\<close>

text \<open>
  For sizes and lengths in the range where the double quotient is exact, the stored field
  \<^verbatim>\<open>_length\<close> does what the comments of the class announce on the creation path and
  under both setters: \<open>block_inv\<close> holds.
\<close>

lemma block_inv_init_create:
  "in_double_range sz \<Longrightarrow>
     block_inv (LLVFSEntry_init rnd now off sz None k atime ftype vfs)"
  by (simp add: block_inv_def LLVFSEntry_init_def ceil1024_ge)

lemma block_inv_size_set:
  "in_double_range v \<Longrightarrow> block_inv e \<Longrightarrow> block_inv (size_set e v)"
  by (simp add: block_inv_def size_set_def ceil1024_ge)

lemma block_inv_length_set:
  "in_double_range v \<Longrightarrow> in_double_range (u_size e) \<Longrightarrow> block_inv (length_set e v)"
  by (auto simp: block_inv_def length_set_def Let_def ceil1024_ge)

text \<open>
  C2. The claim is about the value that reading \<^verbatim>\<open>length\<close> gives. The getter returns
  \<^verbatim>\<open>_size\<close>: an entry created with size 5 has the stored length 1024 and shows the
  length 5, which is not a multiple of 1024.
\<close>

theorem length_get_shows_size:
  "length_get (LLVFSEntry_init [] 0 0 5 None None None 0 False) = 5
   \<and> length_get (LLVFSEntry_init [] 0 0 5 None None None 0 False) mod 1024 = 5
   \<and> u_length (LLVFSEntry_init [] 0 0 5 None None None 0 False) = 1024"
  by (simp add: length_get_def LLVFSEntry_init_def ceil1024_div)

text \<open>
  C10. Assigning to \<^verbatim>\<open>size\<close> a value that is not above the stored \<^verbatim>\<open>_length\<close> leaves
  \<^verbatim>\<open>_length\<close> as it was.
\<close>

theorem size_set_keeps_length:
  "v \<le> u_length e \<Longrightarrow> u_length (size_set e v) = u_length e"
  by (simp add: size_set_def)

theorem size_set_keeps_length_witness:
  "(3::int) \<le> u_length (LLVFSEntry_init [] 0 0 5 None None None 0 False)
   \<and> u_length (size_set (LLVFSEntry_init [] 0 0 5 None None None 0 False) 3) = 1024"
proof -
  have h: "(3::int) \<le> u_length (LLVFSEntry_init [] 0 0 5 None None None 0 False)"
    by (simp add: LLVFSEntry_init_def ceil1024_div)
  show ?thesis
    using h size_set_keeps_length [OF h]
    by (simp add: LLVFSEntry_init_def ceil1024_div)
qed

lemma size_set_grows_length:
  "in_double_range v \<Longrightarrow> u_length e < v \<Longrightarrow>
     u_length (size_set e v) = 1024 * ceil1024 v"
  by (simp add: size_set_def)

section \<open>The registry\<close>

lemma AT_getattr_unregistered: "Str k \<notin> set cvars \<Longrightarrow> AT_getattr k = Inl AttributeError"
  by (simp add: AT_getattr_def)

text \<open>
  C8. The lookup by name returns the position of the name in \<^verbatim>\<open>cvars\<close>, not the code of
  the row: for \<^verbatim>\<open>LSL_TEXT\<close>, registered under 10, it returns 9. The lookup by extension
  returns the code.
\<close>

theorem AT_getattr_LSL_TEXT:
  "AT_getattr ''LSL_TEXT'' = Inr 9 \<and> fromFileExtension ''lsltext'' = Some 10"
  by (simp add: AT_getattr_def cvars_def fromFileExtension_def asset_types_def)

text \<open>
  C9. \<^verbatim>\<open>__getitem__\<close> returns a dictionary for every integer, and for an integer that is
  not a key of the table it returns the row of 255, the \<^verbatim>\<open>UNKNOWN\<close> entry.
\<close>

theorem AT_getitem_total:
  "(\<exists>d. AT_getitem k = Inr d)
   \<and> (k \<notin> set (map fst asset_types) \<longrightarrow>
        AT_getitem k = AT_getitem 255
        \<and> AT_getitem k =
            Inr (zip asset_type_names
                  [Str ''UNKNOWN'', Str ''invalid'', NoneVal, Bool False, Bool False, Bool False]))"
  by (simp add: AT_getitem_def asset_types_def)

theorem AT_getitem_total_witness:
  "(9::int) \<notin> set (map fst asset_types)
   \<and> AT_getitem 9 =
       Inr [(''description'', Str ''UNKNOWN''), (''typename'', Str ''invalid''),
            (''humanname'', NoneVal), (''link'', Bool False), (''fetch'', Bool False),
            (''know'', Bool False)]"
proof -
  have h: "(9::int) \<notin> set (map fst asset_types)"
    by (simp add: asset_types_def)
  from h AT_getitem_total [of 9]
  have "AT_getitem 9 =
          Inr (zip asset_type_names
                [Str ''UNKNOWN'', Str ''invalid'', NoneVal, Bool False, Bool False, Bool False])"
    by blast
  with h show ?thesis
    by (simp add: asset_type_names_def)
qed

section \<open>The path map\<close>

text \<open>
  C6, as the code has it: after \<^verbatim>\<open>map(k, p)\<close>, \<^verbatim>\<open>findPath\<close> takes the path \<open>p\<close> and
  returns the key \<open>k\<close>, and \<^verbatim>\<open>findKey\<close> takes the key \<open>k\<close> and returns the path \<open>p\<close>.
\<close>

theorem map_pm_lookups:
  "findPath (map_pm pm k p) p = Some k \<and> findKey (map_pm pm k p) k = Some p"
  by (simp add: findPath_def findKey_def map_pm_def)

text \<open>
  C6 as stated fails: with the arguments the other way round, both lookups miss.
\<close>

theorem map_pm_lookups_counterexample:
  "findPath (map_pm PathMap_empty ''k'' ''p'') ''k'' = None
   \<and> findKey (map_pm PathMap_empty ''k'' ''p'') ''p'' = None"
  by (simp add: findPath_def findKey_def map_pm_def PathMap_empty_def)

text \<open>
  C7, as the code has it: \<^verbatim>\<open>map(k, p)\<close> sets the path stored for \<open>k\<close> and the key stored
  for \<open>p\<close>, and every other entry of the two dictionaries stays.
\<close>

theorem map_pm_frame:
  "findKey (map_pm pm k p) k' = (if k' = k then Some p else findKey pm k')
   \<and> findPath (map_pm pm k p) p' = (if p' = p then Some k else findPath pm p')"
  by (simp add: findPath_def findKey_def map_pm_def)

theorem map_pm_frame_witness:
  "findKey (map_pm (map_pm PathMap_empty ''k'' ''p1'') ''k'' ''p2'') ''k'' = Some ''p2''
   \<and> findPath (map_pm (map_pm PathMap_empty ''k'' ''p1'') ''k'' ''p2'') ''p2'' = Some ''k''"
  using map_pm_frame [of "map_pm PathMap_empty ''k'' ''p1''" "''k''" "''p2''" "''k''" "''p2''"]
  by simp

text \<open>
  C7 as stated fails: after \<^verbatim>\<open>map(k, p1)\<close> and \<^verbatim>\<open>map(k, p2)\<close> the old path \<open>p1\<close> still
  yields \<open>k\<close>.
\<close>

theorem map_pm_stale_counterexample:
  "findPath (map_pm (map_pm PathMap_empty ''k'' ''p1'') ''k'' ''p2'') ''p1'' = Some ''k''"
  by (simp add: findPath_def map_pm_def PathMap_empty_def)

section \<open>The record codec\<close>

lemma length_le_bytes [simp]: "length (le_bytes n v) = n"
  by (induction n arbitrary: v) auto

lemma le_val_le_bytes: "v < 256 ^ n \<Longrightarrow> le_val (le_bytes n v) = v"
proof (induction n arbitrary: v)
  case 0
  then show ?case by simp
next
  case (Suc n)
  from Suc.prems have "v div 256 < 256 ^ n"
    by (simp add: less_mult_imp_div_less mult.commute)
  then have "le_val (le_bytes n (v div 256)) = v div 256"
    by (rule Suc.IH)
  moreover have "unat (of_nat (v mod 256) :: byte) = v mod 256"
    by (simp add: unat_of_nat)
  ultimately show ?case by simp
qed

lemma length_pack_16s [simp]: "length (pack_16s k) = 16"
  by (simp add: pack_16s_def)

lemma pack_16s_id: "length k = 16 \<Longrightarrow> pack_16s k = k"
  by (simp add: pack_16s_def)

lemma pack_uint_Inr:
  "0 \<le> v \<Longrightarrow> v < 256 ^ n \<Longrightarrow> pack_uint n v = Inr (le_bytes n (nat v))"
  by (simp add: pack_uint_def)

lemma pack_Inr:
  assumes "0 \<le> off" "off < 2 ^ 32" "0 \<le> len" "len < 2 ^ 32" "0 \<le> atime" "atime < 2 ^ 32"
    "0 \<le> ftype" "ftype < 2 ^ 16" "0 \<le> sz" "sz < 2 ^ 32"
  shows "pack off len atime k ftype sz =
           Inr (le_bytes 4 (nat off) @ le_bytes 4 (nat len) @ le_bytes 4 (nat atime)
                @ pack_16s k @ le_bytes 2 (nat ftype) @ le_bytes 4 (nat sz))"
  using assms by (simp add: pack_def pack_uint_def)

lemma pack_length: "pack off len atime k ftype sz = Inr r \<Longrightarrow> length r = 34"
  by (auto simp: pack_def pack_uint_def split: if_splits)

lemma unpack_pack:
  assumes "pack off len atime k ftype sz = Inr r"
  shows "unpack r = (nat off, nat len, nat atime, pack_16s k, nat ftype, nat sz)"
proof -
  from assms have r: "r = le_bytes 4 (nat off) @ le_bytes 4 (nat len) @ le_bytes 4 (nat atime)
                @ pack_16s k @ le_bytes 2 (nat ftype) @ le_bytes 4 (nat sz)"
    and b: "nat off < 256 ^ 4" "nat len < 256 ^ 4" "nat atime < 256 ^ 4" "nat ftype < 256 ^ 2" "nat sz < 256 ^ 4"
    by (auto simp: pack_def pack_uint_def split: if_splits)
  show ?thesis
    unfolding r unpack_def using b by (simp add: le_val_le_bytes)
qed

lemma pack_Inl:
  "pack off len atime k ftype sz = Inl e \<Longrightarrow> e = StructError"
  by (auto simp: pack_def pack_uint_def split: if_splits)

section \<open>Chunks, the load loop and file writes\<close>

lemma chunks34_Nil [simp]: "chunks34 [] = []"
  by (simp add: chunks34.simps)

lemma chunks34_one: "length r = 34 \<Longrightarrow> chunks34 (r @ rest) = r # chunks34 rest"
  by (subst chunks34.simps) auto

lemma chunks34_append:
  "length a mod 34 = 0 \<Longrightarrow> chunks34 (a @ b) = chunks34 a @ chunks34 b"
proof (induction a rule: chunks34.induct)
  case (1 buf)
  show ?case
  proof (cases "buf = []")
    case True
    then show ?thesis by simp
  next
    case False
    with "1.prems" have len: "34 \<le> length buf"
      by (cases "length buf < 34") auto
    from le_mod_geq [OF len] "1.prems" have m: "length (drop 34 buf) mod 34 = 0"
      by simp
    have split: "buf = take 34 buf @ drop 34 buf" by simp
    have l34: "length (take 34 buf) = 34" using len by simp
    have "chunks34 (buf @ b) = chunks34 (take 34 buf @ (drop 34 buf @ b))"
      by (metis split append_assoc)
    also have "\<dots> = take 34 buf # chunks34 (drop 34 buf @ b)"
      by (rule chunks34_one [OF l34])
    also have "\<dots> = take 34 buf # (chunks34 (drop 34 buf) @ chunks34 b)"
      using "1.IH" [OF False m] by simp
    also have "\<dots> = chunks34 buf @ chunks34 b"
      using False by (subst (2) chunks34.simps) simp
    finally show ?thesis .
  qed
qed

lemma chunks34_single: "length r = 34 \<Longrightarrow> chunks34 r = [r]"
  using chunks34_one [of r "[]"] by simp

lemma concat_chunks34: "concat (chunks34 buf) = buf"
proof (induction buf rule: chunks34.induct)
  case (1 buf)
  show ?case
  proof (cases "buf = []")
    case True then show ?thesis by simp
  next
    case False
    with 1 show ?thesis by (subst chunks34.simps) simp
  qed
qed

lemma entries_load_loop:
  "entries (load_loop s rs) = entries s @ map entry_of_record rs"
  by (induction rs arbitrary: s) auto

lemma keymap_load_loop:
  "keymap (load_loop s rs) = keymap s @ map (key \<circ> entry_of_record) rs"
  by (induction rs arbitrary: s) auto

lemma files_load_loop [simp]:
  "mode (load_loop s rs) = mode s"
  "indexFile (load_loop s rs) = indexFile s"
  "dataFile (load_loop s rs) = dataFile s"
  by (induction rs arbitrary: s) auto

lemma length_write_at:
  "length (write_at c p d) = max (length c) (p + length d)"
  by (auto simp: write_at_def)

lemma read_back_write_at:
  "take (length d) (drop p (write_at c p d)) = d"
proof -
  have "length (take p c @ replicate (p - length c) 0) = p" by auto
  then have "drop p ((take p c @ replicate (p - length c) 0) @ d @ drop (p + length d) c)
               = d @ drop (p + length d) c"
    by (metis append_eq_conv_conj)
  then show ?thesis by (simp add: write_at_def)
qed

lemma write_at_keeps_before:
  "q + n \<le> p \<Longrightarrow> q + n \<le> length c \<Longrightarrow>
     take n (drop q (write_at c p d)) = take n (drop q c)"
  by (simp add: write_at_def drop_take min_def)

section \<open>Opening, loading and reading\<close>

lemma loadIndexFile_r:
  "mode s = ''r'' \<Longrightarrow>
     loadIndexFile s =
       (case iter_unpack (content (indexFile s)) of
          Inl e \<Rightarrow> Inl e
        | Inr recs \<Rightarrow>
            Inr (load_loop (s\<lparr>indexFile := (indexFile s)\<lparr>pos := length (content (indexFile s))\<rparr>\<rparr>) recs))"
  by (simp add: loadIndexFile_def file_seek_def max_offset_def file_read_def Let_def)

lemma loadIndexFile_not_r: "mode s \<noteq> ''r'' \<Longrightarrow> loadIndexFile s = Inl UnsupportedOperation"
  by (simp add: loadIndexFile_def file_seek_def max_offset_def file_read_def)

lemma LLVFS_init_a: "LLVFS_init idx dat ''a'' = Inl UnsupportedOperation"
  by (cases idx; cases dat)
     (simp_all add: LLVFS_init_def lower_mode_def open_file_def loadIndexFile_not_r)

lemma LLVFS_init_w: "LLVFS_init idx dat ''w'' = Inr fresh_store"
  by (simp add: LLVFS_init_def lower_mode_def open_file_def fresh_store_def)

lemma LLVFS_init_r:
  "LLVFS_init (Some idx) (Some dat) ''r'' =
     (case iter_unpack idx of
        Inl e \<Rightarrow> Inl e
      | Inr recs \<Rightarrow>
          Inr (load_loop \<lparr> mode = ''r'', entries = [], keymap = [],
                           indexFile = \<lparr> content = idx, pos = length idx \<rparr>,
                           dataFile = \<lparr> content = dat, pos = 0 \<rparr> \<rparr> recs))"
  by (simp add: LLVFS_init_def lower_mode_def open_file_def loadIndexFile_r split: sum.split)

text \<open>
  C3. In read mode, an index file whose length is not a multiple of 34 makes
  \<^verbatim>\<open>loadIndexFile\<close>, and so the construction of the store, fail with \<^verbatim>\<open>struct.error\<close>,
  the exception that stands for the specification's CorruptIndex; no entry list is
  returned.
\<close>

theorem loadIndexFile_partial_record:
  "mode s = ''r'' \<Longrightarrow> length (content (indexFile s)) mod 34 \<noteq> 0 \<Longrightarrow>
     loadIndexFile s = Inl StructError
     \<and> LLVFS_init (Some (content (indexFile s))) (Some dat) ''r'' = Inl StructError"
  by (simp add: loadIndexFile_r LLVFS_init_r iter_unpack_def)

theorem loadIndexFile_partial_record_witness:
  "mode store_123 = ''r''
   \<and> loadIndexFile (store_123\<lparr>indexFile := \<lparr> content = [0], pos = 0 \<rparr>\<rparr>) = Inl StructError
   \<and> LLVFS_init (Some [0]) (Some []) ''r'' = Inl StructError"
  using loadIndexFile_partial_record
          [of "store_123\<lparr>indexFile := \<lparr> content = [0], pos = 0 \<rparr>\<rparr>" "[]"]
  by (simp add: store_123_def)

lemma read_r:
  "mode s = ''r'' \<Longrightarrow> 0 \<le> off \<Longrightarrow> off \<le> max_offset \<Longrightarrow>
   0 \<le> sz \<Longrightarrow> sz < 2 ^ 63 - 33 \<Longrightarrow>
     read s off sz =
       (Inr (take (nat sz) (drop (nat off) (content (dataFile s)))),
        s\<lparr>dataFile := (dataFile s)\<lparr>pos := nat off
              + length (take (nat sz) (drop (nat off) (content (dataFile s))))\<rparr>\<rparr>)"
  by (simp add: read_def file_seek_def max_offset_def file_read_def Let_def)

text \<open>What \<^verbatim>\<open>read\<close> refuses: an offset or a size outside the ranges of the platform.\<close>

lemma read_offset_refused:
  "off < 0 \<or> max_offset < off \<Longrightarrow>
     fst (read s off sz) = Inl (if off < - (2 ^ 63) \<or> 2 ^ 63 \<le> off then ValueError else OSError)"
  by (auto simp: read_def file_seek_def)

lemma read_size_refused:
  "mode s = ''r'' \<Longrightarrow> 0 \<le> off \<Longrightarrow> off \<le> max_offset \<Longrightarrow>
   sz < - 1 \<or> 2 ^ 63 - 33 \<le> sz \<Longrightarrow>
     fst (read s off sz)
       = Inl (if sz < - (2 ^ 63) \<or> 2 ^ 63 - 33 \<le> sz then OverflowError else ValueError)"
  by (auto simp: read_def file_seek_def max_offset_def file_read_def)

text \<open>
  C5, as the code has it: in read mode, for an offset and a size in the range of the
  32-bit fields of an index record (from 0 to \<open>2^32 - 1\<close>), \<^verbatim>\<open>read\<close> returns without an
  error the bytes from \<open>offset\<close> on, \<open>size\<close> of them when the file holds that many and
  all that remain (fewer than \<open>size\<close>) when it does not.
\<close>

theorem read_returns_available:
  "mode s = ''r'' \<Longrightarrow> 0 \<le> off \<Longrightarrow> off < 2 ^ 32 \<Longrightarrow> 0 \<le> sz \<Longrightarrow> sz < 2 ^ 32 \<Longrightarrow>
     (\<exists>bs. fst (read s off sz) = Inr bs
           \<and> bs = take (nat sz) (drop (nat off) (content (dataFile s)))
           \<and> int (length bs) = min sz (max 0 (int (length (content (dataFile s))) - off)))"
proof -
  assume m: "mode s = ''r''" and o: "0 \<le> off" "off < 2 ^ 32" and z: "0 \<le> sz" "sz < 2 ^ 32"
  from o have o': "off \<le> max_offset" by (simp add: max_offset_def)
  from z have z': "sz < 2 ^ 63 - 33" by simp
  from read_r [OF m o(1) o' z(1) z'] o z show ?thesis by auto
qed

theorem read_returns_available_witness:
  "mode store_123 = ''r'' \<and> (0::int) \<le> 1 \<and> (1::int) < 2 ^ 32 \<and> (0::int) \<le> 2
   \<and> (2::int) < 2 ^ 32 \<and> fst (read store_123 1 2) = Inr [2, 3]"
proof -
  have m: "mode store_123 = ''r''" by (simp add: store_123_def)
  from read_returns_available [OF m, of 1 2]
  have "fst (read store_123 1 2) = Inr (take (nat 2) (drop (nat 1) (content (dataFile store_123))))"
    by auto
  with m show ?thesis by (simp add: store_123_def)
qed

text \<open>
  C5 as stated fails: five bytes asked at offset 1 of a file of three give two bytes and
  no error.
\<close>

theorem read_short_counterexample:
  "LLVFS_init (Some []) (Some [1, 2, 3]) ''r'' = Inr store_123
   \<and> fst (read store_123 1 5) = Inr [2, 3]"
  by (simp add: LLVFS_init_r iter_unpack_def store_123_def read_r max_offset_def)

section \<open>Appending an asset\<close>

lemma pack_Inl_iff:
  "pack off len atime k ftype sz = Inl StructError \<longleftrightarrow>
     \<not> (0 \<le> off \<and> off < 2 ^ 32 \<and> 0 \<le> len \<and> len < 2 ^ 32 \<and> 0 \<le> atime \<and> atime < 2 ^ 32
        \<and> 0 \<le> ftype \<and> ftype < 2 ^ 16 \<and> 0 \<le> sz \<and> sz < 2 ^ 32)"
  by (auto simp: pack_def pack_uint_def)

lemma write_at_end: "write_at c (length c) d = c @ d"
  by (simp add: write_at_def)

lemma ceil1024_nonneg: "0 \<le> v \<Longrightarrow> 0 \<le> ceil1024 v"
  using ceil1024_ge [of v] by linarith

lemma add_struct_error:
  assumes "mode s = ''w''" "\<not> add_fits now s ftype dat atime"
  shows "add now s k ftype dat atime = Inl StructError"
proof -
  let ?at = "case atime of None \<Rightarrow> now | Some t \<Rightarrow> if t = 0 then now else t"
  let ?len = "1024 * ceil1024 (int (length dat))"
  have "pack (int (pos (dataFile s))) ?len ?at k ftype (int (length dat)) = Inl StructError"
    using assms(2) unfolding pack_Inl_iff add_fits_def Let_def by auto
  then show ?thesis
    using assms(1) by (simp add: add_def Let_def file_write_def)
qed

lemma add_w:
  assumes w: "mode s = ''w''" and fits: "add_fits now s ftype dat atime"
  shows "\<exists>r f2. pack (int (pos (dataFile s))) (1024 * ceil1024 (int (length dat)))
                  (case atime of None \<Rightarrow> now | Some t \<Rightarrow> if t = 0 then now else t)
                  k ftype (int (length dat)) = Inr r
          \<and> add now s k ftype dat atime =
              Inr (s\<lparr> dataFile := f2,
                     indexFile := \<lparr> content = write_at (content (indexFile s)) (pos (indexFile s)) r,
                                    pos = pos (indexFile s) + length r \<rparr> \<rparr>)
          \<and> take (length dat) (drop (pos (dataFile s)) (content f2)) = dat"
proof -
  let ?at = "case atime of None \<Rightarrow> now | Some t \<Rightarrow> if t = 0 then now else t"
  let ?len = "1024 * ceil1024 (int (length dat))"
  let ?p = "pos (dataFile s)"
  let ?c1 = "write_at (content (dataFile s)) ?p dat"
  let ?f1 = "\<lparr> content = ?c1, pos = ?p + length dat \<rparr>"
  let ?pad = "replicate (nat (?len - int (length dat))) (0::byte)"
  let ?f2 = "if ?len - int (length dat) > 0
             then \<lparr> content = write_at ?c1 (?p + length dat) ?pad,
                    pos = ?p + length dat + length ?pad \<rparr>
             else ?f1"
  have ge: "int (length dat) \<le> ?len" by (rule ceil1024_ge)
  have nn: "0 \<le> ?len" using ge by linarith
  from fits have rng: "int ?p < 2 ^ 32" "?len < 2 ^ 32" "0 \<le> ?at" "?at < 2 ^ 32"
    "0 \<le> ftype" "ftype < 2 ^ 16"
    by (simp_all add: add_fits_def Let_def)
  have "pack (int ?p) ?len ?at k ftype (int (length dat)) \<noteq> Inl StructError"
    unfolding pack_Inl_iff using rng ge nn by auto
  then obtain r where r: "pack (int ?p) ?len ?at k ftype (int (length dat)) = Inr r"
    by (cases "pack (int ?p) ?len ?at k ftype (int (length dat))") (auto dest: pack_Inl)
  have c1: "take (length dat) (drop ?p ?c1) = dat"
    by (rule read_back_write_at)
  have "take (length dat) (drop ?p (write_at ?c1 (?p + length dat) ?pad))
          = take (length dat) (drop ?p ?c1)"
    by (rule write_at_keeps_before) (simp_all add: length_write_at)
  with c1 have c2: "take (length dat) (drop ?p (content ?f2)) = dat"
    by simp
  have "add now s k ftype dat atime =
          Inr (s\<lparr> dataFile := ?f2,
                 indexFile := \<lparr> content = write_at (content (indexFile s)) (pos (indexFile s)) r,
                                pos = pos (indexFile s) + length r \<rparr> \<rparr>)"
    using w r by (simp add: add_def Let_def file_write_def)
  with r c2 show ?thesis by blast
qed

section \<open>Lookup by key\<close>

lemma index_of_find:
  "k \<in> set (map f xs) \<Longrightarrow>
     index_of (map f xs) k < length xs
     \<and> find (\<lambda>x. f x = k) xs = Some (xs ! index_of (map f xs) k)"
  by (induction xs) auto

lemma find_None_notin: "k \<notin> set (map f xs) \<Longrightarrow> find (\<lambda>x. f x = k) xs = None"
  by (induction xs) auto

lemma fromKey_find:
  "keymap s = map key (entries s) \<Longrightarrow>
     fromKey s k = Inr (find (\<lambda>e. key e = k) (iter_store s))"
proof (cases "k \<in> set (map key (entries s))")
  case True
  assume km: "keymap s = map key (entries s)"
  from index_of_find [OF True] km True show ?thesis
    by (simp add: fromKey_def iter_store_def Let_def)
next
  case False
  assume km: "keymap s = map key (entries s)"
  from find_None_notin [OF False] km False show ?thesis
    by (simp add: fromKey_def iter_store_def)
qed

text \<open>
  C4, as the code has it: a store loaded from an index of whole records iterates over the
  entries of all records in file order, and \<^verbatim>\<open>fromKey\<close> returns the first entry in that
  order that bears the key, or \<^verbatim>\<open>None\<close> when there is none.
\<close>

theorem fromKey_first_record:
  "length idx mod 34 = 0 \<Longrightarrow>
     (\<exists>s. LLVFS_init (Some idx) (Some dat) ''r'' = Inr s
          \<and> iter_store s = map (entry_of_record \<circ> unpack) (chunks34 idx)
          \<and> (\<forall>k. fromKey s k = Inr (find (\<lambda>e. key e = k) (iter_store s))))"
proof -
  assume m: "length idx mod 34 = 0"
  let ?base = "\<lparr> mode = ''r'', entries = [], keymap = [],
                  indexFile = \<lparr> content = idx, pos = length idx \<rparr>,
                  dataFile = \<lparr> content = dat, pos = 0 \<rparr> \<rparr>"
  let ?s = "load_loop ?base (map unpack (chunks34 idx))"
  have init: "LLVFS_init (Some idx) (Some dat) ''r'' = Inr ?s"
    using m by (simp add: LLVFS_init_r iter_unpack_def)
  have es: "entries ?s = map (entry_of_record \<circ> unpack) (chunks34 idx)"
    by (simp add: entries_load_loop)
  have km: "keymap ?s = map key (entries ?s)"
    by (simp add: entries_load_loop keymap_load_loop)
  have "\<forall>k. fromKey ?s k = Inr (find (\<lambda>e. key e = k) (iter_store ?s))"
    using fromKey_find [OF km] by blast
  with init es show ?thesis
    unfolding iter_store_def by blast
qed

lemma length_dup_rec [simp]: "length dup_rec_a = 34" "length dup_rec_b = 34"
  by (simp_all add: dup_rec_a_def dup_rec_b_def)

lemma unpack_dup_rec:
  "unpack dup_rec_a = (0, 1024, 1, demo_key, 0, 5)"
  "unpack dup_rec_b = (1024, 1024, 2, demo_key, 0, 7)"
  by (simp_all add: unpack_def dup_rec_a_def dup_rec_b_def demo_key_def)

lemma dup_store_loaded:
  "LLVFS_init (Some dup_index) (Some (replicate 2048 0)) ''r'' = Inr dup_store"
  by (simp add: LLVFS_init_r iter_unpack_def dup_index_def chunks34_one chunks34_single
        unpack_dup_rec entry_of_record_def LLVFSEntry_init_def dup_store_def dup_first_def
        dup_last_def)

theorem fromKey_first_record_witness:
  "length dup_index mod 34 = 0
   \<and> fromKey dup_store demo_key = Inr (Some dup_first)"
proof -
  have m: "length dup_index mod 34 = 0" by (simp add: dup_index_def)
  from fromKey_first_record [OF m, of "replicate 2048 0"] dup_store_loaded
  have "fromKey dup_store demo_key = Inr (find (\<lambda>e. key e = demo_key) (iter_store dup_store))"
    by auto
  with m show ?thesis
    by (simp add: iter_store_def dup_store_def dup_first_def)
qed

text \<open>
  C4 as stated fails: with two records under one key, \<^verbatim>\<open>fromKey\<close> returns the entry of
  the first record, which is not the entry of the last one.
\<close>

theorem fromKey_last_counterexample:
  "LLVFS_init (Some dup_index) (Some (replicate 2048 0)) ''r'' = Inr dup_store
   \<and> iter_store dup_store = [dup_first, dup_last]
   \<and> key dup_first = demo_key \<and> key dup_last = demo_key
   \<and> fromKey dup_store demo_key = Inr (Some dup_first)
   \<and> dup_first \<noteq> dup_last"
  by (simp add: dup_store_loaded iter_store_def fromKey_def dup_store_def dup_first_def
        dup_last_def)

section \<open>Round trip of a payload\<close>

lemma opened_w_fresh: "opened_w fresh_store"
  by (simp add: opened_w_def fresh_store_def)

lemma opened_w_add:
  assumes "opened_w s" "add now s k ftype dat atime = Inr s'"
  shows "opened_w s'"
proof -
  from assms(1) have w: "mode s = ''w''" by (simp add: opened_w_def)
  have fits: "add_fits now s ftype dat atime"
    using add_struct_error [OF w, of now ftype dat atime k] assms(2) by auto
  from add_w [OF w fits, of k] assms(2) obtain r f2 where
    r: "pack (int (pos (dataFile s))) (1024 * ceil1024 (int (length dat)))
          (case atime of None \<Rightarrow> now | Some t \<Rightarrow> if t = 0 then now else t)
          k ftype (int (length dat)) = Inr r"
    and s': "s' = s\<lparr> dataFile := f2,
                 indexFile := \<lparr> content = write_at (content (indexFile s)) (pos (indexFile s)) r,
                                pos = pos (indexFile s) + length r \<rparr> \<rparr>"
    by auto
  from pack_length [OF r] assms(1) show ?thesis
    unfolding s' by (simp add: opened_w_def write_at_end)
qed

lemma opened_w_read: "opened_w s \<Longrightarrow> opened_w (snd (read s off sz))"
  by (auto simp: opened_w_def read_def file_seek_def file_read_def split: sum.splits if_splits)

text \<open>
  C1, as the code has it: on a store opened in write mode, when the values of the record
  fit their fields, \<^verbatim>\<open>add\<close> succeeds; the store reloaded in read mode from the two
  files has the new entry last, with the write cursor as offset and the payload length as
  size, and \<^verbatim>\<open>read\<close> at that offset and size returns the payload without its padding.
\<close>

theorem add_reload_read:
  assumes ow: "opened_w s" and fits: "add_fits now s ftype P atime"
  shows "\<exists>s' t. add now s k ftype P atime = Inr s'
           \<and> LLVFS_init (Some (content (indexFile s'))) (Some (content (dataFile s'))) ''r''
               = Inr t
           \<and> iter_store t \<noteq> []
           \<and> offset (last (iter_store t)) = int (pos (dataFile s))
           \<and> size_get (last (iter_store t)) = int (length P)
           \<and> fst (read t (offset (last (iter_store t))) (size_get (last (iter_store t))))
               = Inr P"
proof -
  let ?at = "case atime of None \<Rightarrow> now | Some t \<Rightarrow> if t = 0 then now else t"
  let ?len = "1024 * ceil1024 (int (length P))"
  let ?p = "pos (dataFile s)"
  let ?I = "content (indexFile s)"
  from ow have w: "mode s = ''w''" and ip: "pos (indexFile s) = length ?I"
    and im: "length ?I mod 34 = 0"
    by (simp_all add: opened_w_def)
  from add_w [OF w fits, of k] obtain r f2 where
    r: "pack (int ?p) ?len ?at k ftype (int (length P)) = Inr r"
    and a: "add now s k ftype P atime =
              Inr (s\<lparr> dataFile := f2,
                     indexFile := \<lparr> content = write_at ?I (pos (indexFile s)) r,
                                    pos = pos (indexFile s) + length r \<rparr> \<rparr>)"
    and d: "take (length P) (drop ?p (content f2)) = P"
    by blast
  let ?s' = "s\<lparr> dataFile := f2,
               indexFile := \<lparr> content = write_at ?I (pos (indexFile s)) r,
                              pos = pos (indexFile s) + length r \<rparr> \<rparr>"
  have r34: "length r = 34" by (rule pack_length [OF r])
  have ic: "content (indexFile ?s') = ?I @ r"
    by (simp add: ip write_at_end)
  let ?recs = "map unpack (chunks34 ?I) @ [unpack r]"
  have iu: "iter_unpack (?I @ r) = Inr ?recs"
    using im r34 by (simp add: iter_unpack_def chunks34_append chunks34_single)
  let ?base = "\<lparr> mode = ''r'', entries = [], keymap = [],
                  indexFile = \<lparr> content = ?I @ r, pos = length (?I @ r) \<rparr>,
                  dataFile = \<lparr> content = content f2, pos = 0 \<rparr> \<rparr>"
  let ?t = "load_loop ?base ?recs"
  have init: "LLVFS_init (Some (content (indexFile ?s'))) (Some (content (dataFile ?s'))) ''r''
                = Inr ?t"
    unfolding ic by (simp add: LLVFS_init_r iu)
  have es: "iter_store ?t = map entry_of_record (map unpack (chunks34 ?I))
                             @ [entry_of_record (unpack r)]"
    by (simp add: iter_store_def entries_load_loop)
  have ne: "iter_store ?t \<noteq> []" and la: "last (iter_store ?t) = entry_of_record (unpack r)"
    unfolding es by simp_all
  have off: "offset (entry_of_record (unpack r)) = int ?p"
    and sz: "size_get (entry_of_record (unpack r)) = int (length P)"
    by (simp_all add: unpack_pack [OF r] entry_of_record_def LLVFSEntry_init_def size_get_def)
  have mt: "mode ?t = ''r''" and dt: "content (dataFile ?t) = content f2"
    by simp_all
  have ge: "int (length P) \<le> ?len" by (rule ceil1024_ge)
  from fits have pl: "int ?p < 2 ^ 32" and ll: "?len < 2 ^ 32"
    by (simp_all add: add_fits_def Let_def)
  have po: "int ?p \<le> max_offset" using pl by (simp add: max_offset_def)
  from ge ll have "int (length P) < 2 ^ 32" by linarith
  then have ps: "int (length P) < 2 ^ 63 - 33" by simp
  have rd: "fst (read ?t (int ?p) (int (length P))) = Inr P"
    using read_r [OF mt _ po _ ps] d by (simp add: dt)
  show ?thesis
    using a init ne la off sz rd by (metis (no_types, lifting))
qed

theorem add_reload_read_witness:
  "opened_w fresh_store \<and> add_fits 1 fresh_store 18 [104, 105] None
   \<and> (\<exists>s' t. add 1 fresh_store demo_key 18 [104, 105] None = Inr s'
          \<and> LLVFS_init (Some (content (indexFile s'))) (Some (content (dataFile s'))) ''r''
              = Inr t
          \<and> fst (read t (offset (last (iter_store t))) (size_get (last (iter_store t))))
              = Inr [104, 105])"
proof -
  have f: "add_fits 1 fresh_store 18 [104, 105] None"
    by (simp add: add_fits_def fresh_store_def ceil1024_div)
  from add_reload_read [OF opened_w_fresh f, of demo_key] opened_w_fresh f
  show ?thesis by auto
qed

text \<open>
  C1 as stated fails: a payload of \<open>2^32 - 1\<close> bytes has the padded length \<open>2^32\<close>, which
  the 32-bit field does not hold, and the registered type code \<open>-2\<close> does not fit the
  16-bit field; \<^verbatim>\<open>add\<close> raises \<^verbatim>\<open>struct.error\<close> and appends no record.
\<close>

theorem add_large_counterexample:
  "LLVFS_init None None ''w'' = Inr fresh_store
   \<and> add 1 fresh_store demo_key 0 (replicate 4294967295 0) None = Inl StructError
   \<and> add 1 fresh_store demo_key (- 2) [104, 105] None = Inl StructError"
proof -
  have w: "mode fresh_store = ''w''" by (simp add: fresh_store_def)
  have n1: "\<not> add_fits 1 fresh_store 0 (replicate 4294967295 0) None"
    by (simp add: add_fits_def fresh_store_def ceil1024_div)
  have n2: "\<not> add_fits 1 fresh_store (- 2) [104, 105] None"
    by (simp add: add_fits_def fresh_store_def ceil1024_div)
  show ?thesis
    using add_struct_error [OF w n1] add_struct_error [OF w n2] LLVFS_init_w by simp
qed

end
